theory Spec2Isabelle
  imports Main "HOL-Library.Sublist"
begin

section \<open>JavaScript values used by the process controller\<close>

text \<open>
  Query parameters reach the handlers as strings (or are absent). \<open>parseInt\<close> turns them
  into numbers; the only non-integer number it can produce from a digit string of ordinary
  length is \<open>NaN\<close>. Numbers are modelled as exact integers, which is what a double holds
  for magnitudes up to \<open>2^53\<close>; longer digit strings, which JavaScript rounds, are outside
  the embedding. Negative zero is identified with zero (both compare and print alike).
  A parameter is taken to be given at most once, so that it is a string and not an array.
\<close>

datatype jsnum = NaN | Num int

definition js_lt :: "jsnum \<Rightarrow> int \<Rightarrow> bool" where
  "js_lt a b = (case a of NaN \<Rightarrow> False | Num x \<Rightarrow> x < b)"

definition js_gt :: "jsnum \<Rightarrow> int \<Rightarrow> bool" where
  "js_gt a b = (case a of NaN \<Rightarrow> False | Num x \<Rightarrow> x > b)"

text \<open>Truthiness of a number: \<open>0\<close> and \<open>NaN\<close> are falsy.\<close>

definition truthy_num :: "jsnum \<Rightarrow> bool" where
  "truthy_num a = (case a of NaN \<Rightarrow> False | Num x \<Rightarrow> x \<noteq> 0)"

text \<open>Truthiness of an optional string (\<open>undefined\<close> and the empty string are falsy).\<close>

definition truthy_str :: "string option \<Rightarrow> bool" where
  "truthy_str v = (case v of None \<Rightarrow> False | Some s \<Rightarrow> s \<noteq> [])"

subsection \<open>parseInt\<close>

definition is_ws :: "char \<Rightarrow> bool" where
  "is_ws c = (c = CHR '' '' \<or> c = CHR 0x09 \<or> c = CHR 0x0A \<or> c = CHR 0x0B
              \<or> c = CHR 0x0C \<or> c = CHR 0x0D)"

definition digit_val :: "char \<Rightarrow> nat option" where
  "digit_val c =
     (let n = (of_char c :: nat) in
      if 48 \<le> n \<and> n \<le> 57 then Some (n - 48)
      else if 97 \<le> n \<and> n \<le> 122 then Some (n - 87)
      else if 65 \<le> n \<and> n \<le> 90 then Some (n - 55)
      else None)"

definition is_digit_in :: "nat \<Rightarrow> char \<Rightarrow> bool" where
  "is_digit_in radix c = (case digit_val c of None \<Rightarrow> False | Some d \<Rightarrow> d < radix)"

definition digits_value :: "nat \<Rightarrow> string \<Rightarrow> nat" where
  "digits_value radix ds = foldl (\<lambda>a c. a * radix + the (digit_val c)) 0 ds"

text \<open>
  \<open>parseInt(s)\<close> with no radix argument: leading white space is skipped, a sign is read,
  a \<open>0x\<close>/\<open>0X\<close> prefix selects radix 16 (otherwise 10), and the longest prefix of digits
  is converted; with no digit the result is \<open>NaN\<close>. Only ASCII white space is modelled.
\<close>

definition parseInt :: "string \<Rightarrow> jsnum" where
  "parseInt s =
     (let t = dropWhile is_ws s;
          neg = (t \<noteq> [] \<and> hd t = CHR ''-'');
          u = (if t \<noteq> [] \<and> (hd t = CHR ''-'' \<or> hd t = CHR ''+'') then tl t else t);
          hex = (take 2 u = ''0x'' \<or> take 2 u = ''0X'');
          radix = (if hex then 16 else 10);
          v = (if hex then drop 2 u else u);
          ds = takeWhile (is_digit_in radix) v
      in if ds = [] then NaN
         else Num ((if neg then - 1 else 1) * int (digits_value radix ds)))"

text \<open>
  A destructuring default (\<open>quality = 80\<close>, \<open>size = 300\<close>) supplies a number when the
  parameter is absent; \<open>parseInt\<close> of that number is the number itself.
\<close>

definition parseInt_default :: "int \<Rightarrow> string option \<Rightarrow> jsnum" where
  "parseInt_default d v = (case v of None \<Rightarrow> Num d | Some s \<Rightarrow> parseInt s)"

text \<open>Without a default, \<open>parseInt(undefined)\<close> is \<open>NaN\<close>.\<close>

definition parseInt_val :: "string option \<Rightarrow> jsnum" where
  "parseInt_val v = (case v of None \<Rightarrow> NaN | Some s \<Rightarrow> parseInt s)"

subsection \<open>Numbers inside template literals\<close>

definition digit_char :: "nat \<Rightarrow> char" where
  "digit_char d = ''0123456789'' ! d"

fun digits :: "nat \<Rightarrow> string" where
  "digits n = (if n < 10 then [digit_char n] else digits (n div 10) @ [digit_char (n mod 10)])"

declare digits.simps [simp del]

definition show_num :: "jsnum \<Rightarrow> string" where
  "show_num a = (case a of NaN \<Rightarrow> ''NaN''
                 | Num x \<Rightarrow> if x < 0 then CHR ''-'' # digits (nat (- x)) else digits (nat x))"

text \<open>\<open>${w || 'auto'}\<close> for a dimension that is \<open>null\<close> or a number.\<close>

definition show_dim :: "jsnum option \<Rightarrow> string" where
  "show_dim w = (case w of None \<Rightarrow> ''auto''
                 | Some a \<Rightarrow> if truthy_num a then show_num a else ''auto'')"


section \<open>Cache key generation\<close>

text \<open>
  \<open>path.parse(file.filename).name\<close>: the base name without its last extension. A leading
  dot does not start an extension, and \<open>..\<close> has none. \<open>file.filename\<close> is a bare file
  name (the upload stores \<open>uuid + extension\<close>), so no directory part is split off.
\<close>

definition last_dot :: "string \<Rightarrow> nat option" where
  "last_dot b = (if CHR ''.'' \<in> set b
                 then Some (length b - 1 - length (takeWhile (\<lambda>c. c \<noteq> CHR ''.'') (rev b)))
                 else None)"

definition path_parse_name :: "string \<Rightarrow> string" where
  "path_parse_name b =
     (case last_dot b of
        None \<Rightarrow> b
      | Some i \<Rightarrow> if i = 0 \<or> b = ''..'' then b else take i b)"

text \<open>The four template literals that name a derivative (lines 61, 164, 261 and 409).\<close>

definition resize_cacheFilename ::
  "string \<Rightarrow> jsnum option \<Rightarrow> jsnum option \<Rightarrow> jsnum \<Rightarrow> string \<Rightarrow> string" where
  "resize_cacheFilename stem w h q ext =
     stem @ ''_'' @ show_dim w @ ''x'' @ show_dim h @ ''_q'' @ show_num q @ ''.'' @ ext"

definition convert_cacheFilename :: "string \<Rightarrow> jsnum \<Rightarrow> string \<Rightarrow> string" where
  "convert_cacheFilename stem q format =
     stem @ ''_converted_q'' @ show_num q @ ''.'' @ format"

definition thumbnail_cacheFilename :: "string \<Rightarrow> jsnum \<Rightarrow> jsnum \<Rightarrow> string" where
  "thumbnail_cacheFilename stem s q =
     stem @ ''_thumb_'' @ show_num s @ ''x'' @ show_num s @ ''_q'' @ show_num q @ ''.jpg''"

definition crop_cacheFilename ::
  "string \<Rightarrow> jsnum \<Rightarrow> jsnum \<Rightarrow> jsnum \<Rightarrow> jsnum \<Rightarrow> jsnum \<Rightarrow> string" where
  "crop_cacheFilename stem cropX cropY cropWidth cropHeight q =
     stem @ ''_crop_'' @ show_num cropX @ ''_'' @ show_num cropY @ ''_'' @ show_num cropWidth
          @ ''_'' @ show_num cropHeight @ ''_q'' @ show_num q @ ''.jpg''"






section \<open>Files on disk, the asset table and the image engine\<close>

text \<open>
  A path is its list of segments, already normalised: \<open>path.dirname\<close> drops the last
  segment and \<open>path.join(dir, name)\<close> adds one. (A name that itself holds a separator is
  not modelled.) The disk maps a path to a file with some content or to a directory.
\<close>

type_synonym path = "string list"

definition path_dirname :: "path \<Rightarrow> path" where
  "path_dirname p = butlast p"

definition path_join :: "path \<Rightarrow> string \<Rightarrow> path" where
  "path_join d name = d @ [name]"

datatype 'b node = File 'b | Dir

text \<open>
  The columns of a \<open>files\<close> row that the handlers read. The table is a list of rows; a
  query that fails in the database is not modelled.
\<close>

record file_row =
  f_id :: nat
  f_user_id :: nat
  f_filename :: string
  f_path :: path
  f_file_type :: string
  f_thumbnail_path :: "path option"

text \<open>
  What the handlers ask of \<open>sharp\<close>: an optional geometry step (\<open>resize\<close> with its
  \<open>fit\<close> options, or \<open>extract\<close>), then an encoder with its quality.
\<close>

datatype fit = Inside_withoutEnlargement | Cover_center

datatype geometry =
    NoGeometry
  | Resize "jsnum option" "jsnum option" fit
  | Extract jsnum jsnum jsnum jsnum

datatype encoder = Jpeg jsnum | Png jsnum | Webp jsnum | Gif

datatype job = Job geometry encoder

text \<open>
  \<open>sharp\<close> is a library outside the repository. The handlers are modelled over any engine:
  \<open>run\<close> turns a job and the source content into the encoded content or an error message
  (what \<open>toFile\<close> writes or throws), \<open>metadata\<close> probes a source.
\<close>

record ('b, 'm) engine =
  run :: "job \<Rightarrow> 'b \<Rightarrow> string + 'b"
  metadata :: "'b \<Rightarrow> string + 'm"

datatype call = Encode path job | Probe path

record 'b world =
  db :: "file_row list"
  fs :: "path \<Rightarrow> 'b node option"
  sharp_calls :: "call list"

datatype ('b, 'm) response =
    Json nat string "string option"
  | JsonOk string
  | InfoJson file_row 'm
  | SendFile path 'b
  | SendError path

record query =
  q_width :: "string option"
  q_height :: "string option"
  q_quality :: "string option"
  q_format :: "string option"
  q_size :: "string option"
  q_x :: "string option"
  q_y :: "string option"

record request =
  r_id :: nat
  r_user :: nat
  r_query :: query

subsection \<open>File model (models/File.js)\<close>

text \<open>
  \<open>File.findById(id, userId)\<close>: the row with that id; the owner is compared only when
  \<open>userId\<close> is truthy.
\<close>

definition findById :: "file_row list \<Rightarrow> nat \<Rightarrow> nat \<Rightarrow> file_row option" where
  "findById rows i userId =
     find (\<lambda>r. f_id r = i \<and> (userId = 0 \<or> f_user_id r = userId)) rows"

text \<open>
  \<open>File.delete(id, userId)\<close>: selects the row, resolves \<open>false\<close> when there is none,
  otherwise deletes it and resolves \<open>{success, file}\<close>.
\<close>

definition File_delete ::
  "file_row list \<Rightarrow> nat \<Rightarrow> nat \<Rightarrow> (bool \<times> file_row) option \<times> file_row list" where
  "File_delete rows i userId =
     (case find (\<lambda>r. f_id r = i \<and> f_user_id r = userId) rows of
        None \<Rightarrow> (None, rows)
      | Some file \<Rightarrow>
          (let rows' = filter (\<lambda>r. \<not> (f_id r = i \<and> f_user_id r = userId)) rows
           in (Some (length rows' < length rows, file), rows')))"

subsection \<open>File system and engine calls\<close>

definition existsSync :: "'b world \<Rightarrow> path \<Rightarrow> bool" where
  "existsSync w p = (fs w p \<noteq> None)"

text \<open>
  \<open>fs.mkdirSync(cacheDir, {recursive: true})\<close>, called only when \<open>cacheDir\<close> does not
  exist; its parent holds the source file, so only the directory itself is new.
\<close>

definition mkdirSync :: "path \<Rightarrow> 'b world \<Rightarrow> 'b world" where
  "mkdirSync p w = w\<lparr>fs := (fs w)(p \<mapsto> Dir)\<rparr>"

text \<open>\<open>fs.unlinkSync\<close> removes a file and throws on a directory or a missing path.\<close>

definition unlinkSync :: "path \<Rightarrow> 'b world \<Rightarrow> 'b world option" where
  "unlinkSync p w =
     (case fs w p of
        Some (File b) \<Rightarrow> Some (w\<lparr>fs := (fs w)(p := None)\<rparr>)
      | _ \<Rightarrow> None)"

text \<open>
  \<open>await sharp(src).\<dots>.toFile(out)\<close>: the call is recorded, the source is read, the
  engine runs, and the result is written when the target's directory exists. Any failure is
  an exception carrying a message.
\<close>

definition toFile ::
  "('b, 'm) engine \<Rightarrow> job \<Rightarrow> path \<Rightarrow> path \<Rightarrow> 'b world \<Rightarrow> (string + unit) \<times> 'b world" where
  "toFile eng j src out w =
     (let w1 = w\<lparr>sharp_calls := sharp_calls w @ [Encode src j]\<rparr>
      in case fs w src of
           Some (File b) \<Rightarrow>
             (case run eng j b of
                Inl msg \<Rightarrow> (Inl msg, w1)
              | Inr res \<Rightarrow>
                  if fs w (path_dirname out) = Some Dir \<and> fs w out \<noteq> Some Dir
                  then (Inr (), w1\<lparr>fs := (fs w)(out \<mapsto> File res)\<rparr>)
                  else (Inl ''unable to open for write'', w1))
         | _ \<Rightarrow> (Inl ''Input file is missing or not a file'', w1))"

text \<open>
  \<open>res.sendFile(path.resolve(p))\<close>: the file's content is the response body. The call is
  not awaited, so a path that is not a file is reported by the framework, outside the
  handler's \<open>catch\<close>.
\<close>

definition sendFile :: "'b world \<Rightarrow> path \<Rightarrow> ('b, 'm) response" where
  "sendFile w p = (case fs w p of Some (File b) \<Rightarrow> SendFile p b | _ \<Rightarrow> SendError p)"


section \<open>The process controller (controllers/processController.js)\<close>

text \<open>\<open>width ? parseInt(width) : null\<close>\<close>

definition parse_opt :: "string option \<Rightarrow> jsnum option" where
  "parse_opt v = (case v of None \<Rightarrow> None
                  | Some s \<Rightarrow> if s \<noteq> [] then Some (parseInt s) else None)"

text \<open>\<open>w && (w < 1 || w > 4096)\<close>\<close>

definition dim_rejected :: "jsnum option \<Rightarrow> bool" where
  "dim_rejected w = (case w of None \<Rightarrow> False
                     | Some a \<Rightarrow> truthy_num a \<and> (js_lt a 1 \<or> js_gt a 4096))"

definition truthy_dim :: "jsnum option \<Rightarrow> bool" where
  "truthy_dim w = (case w of None \<Rightarrow> False | Some a \<Rightarrow> truthy_num a)"

text \<open>\<open>q < 1 || q > 100\<close>\<close>

definition quality_rejected :: "jsnum \<Rightarrow> bool" where
  "quality_rejected q = (js_lt q 1 \<or> js_gt q 100)"

abbreviation invalid_quality :: "('b, 'm) response" where
  "invalid_quality \<equiv> Json 400 ''Invalid quality'' (Some ''Quality must be between 1 and 100'')"

text \<open>ASCII \<open>toLowerCase\<close>.\<close>

definition lower_char :: "char \<Rightarrow> char" where
  "lower_char c =
     (case map_of (zip ''ABCDEFGHIJKLMNOPQRSTUVWXYZ'' ''abcdefghijklmnopqrstuvwxyz'') c of
        Some l \<Rightarrow> l | None \<Rightarrow> c)"

definition toLowerCase :: "string \<Rightarrow> string" where
  "toLowerCase s = map lower_char s"

subsection \<open>Blocks every handler repeats\<close>

text \<open>
  The "Find the file" block (lines 38-57, 142-161, 234-253, 299-318, 387-406): owner-scoped
  lookup, then the type check, then the check that the bytes are on disk. Only the message
  of the type error differs between handlers.
\<close>

definition find_image ::
  "string \<Rightarrow> request \<Rightarrow> 'b world \<Rightarrow> ('b, 'm) response + file_row" where
  "find_image type_message req w =
     (case findById (db w) (r_id req) (r_user req) of
        None \<Rightarrow> Inl (Json 404 ''File not found'' None)
      | Some file \<Rightarrow>
          if f_file_type file \<noteq> ''image''
          then Inl (Json 400 ''Invalid file type'' (Some type_message))
          else if \<not> existsSync w (f_path file)
          then Inl (Json 404 ''Physical file not found'' None)
          else Inr file)"

definition cacheDir_of :: "file_row \<Rightarrow> path" where
  "cacheDir_of file = path_join (path_dirname (f_path file)) ''cache''"

definition cachePath_of :: "file_row \<Rightarrow> string \<Rightarrow> path" where
  "cachePath_of file cacheFilename = path_join (cacheDir_of file) cacheFilename"

text \<open>
  The cache block (lines 62-73 and 101-103 with the \<open>catch\<close> of 105-111, and the same lines
  of the other handlers): make the cache directory, answer from the cache file when there
  is one, otherwise run the engine into the cache path and send the result; an exception
  becomes a 500 with the handler's label and the exception's message.
\<close>

definition cached_or_generate ::
  "('b, 'm) engine \<Rightarrow> string \<Rightarrow> file_row \<Rightarrow> string \<Rightarrow> job \<Rightarrow> 'b world
     \<Rightarrow> ('b, 'm) response \<times> 'b world" where
  "cached_or_generate eng label file cacheFilename j w =
     (let cacheDir = cacheDir_of file;
          cachePath = cachePath_of file cacheFilename;
          w1 = (if \<not> existsSync w cacheDir then mkdirSync cacheDir w else w)
      in if existsSync w1 cachePath then (sendFile w1 cachePath, w1)
         else case toFile eng j (f_path file) cachePath w1 of
                (Inl msg, w2) \<Rightarrow> (Json 500 label (Some msg), w2)
              | (Inr u, w2) \<Rightarrow> (sendFile w2 cachePath, w2))"

subsection \<open>resizeImage\<close>

definition resize_params ::
  "query \<Rightarrow> ('b, 'm) response + (jsnum option \<times> jsnum option \<times> jsnum)" where
  "resize_params qu =
     (if \<not> truthy_str (q_width qu) \<and> \<not> truthy_str (q_height qu)
      then Inl (Json 400 ''Missing parameters''
                  (Some ''At least width or height must be specified''))
      else
        let w = parse_opt (q_width qu);
            h = parse_opt (q_height qu);
            q = parseInt_default 80 (q_quality qu)
        in if dim_rejected w \<or> dim_rejected h
           then Inl (Json 400 ''Invalid dimensions''
                       (Some ''Width and height must be between 1 and 4096 pixels''))
           else if quality_rejected q then Inl invalid_quality
           else Inr (w, h, q))"

text \<open>\<open>format || 'jpeg'\<close>\<close>

definition resize_ext :: "string option \<Rightarrow> string" where
  "resize_ext format = (case format of None \<Rightarrow> ''jpeg''
                         | Some f \<Rightarrow> if f \<noteq> [] then f else ''jpeg'')"

definition resize_job :: "jsnum option \<Rightarrow> jsnum option \<Rightarrow> jsnum \<Rightarrow> string option \<Rightarrow> job" where
  "resize_job w h q format =
     Job (if truthy_dim w \<or> truthy_dim h then Resize w h Inside_withoutEnlargement
          else NoGeometry)
         (if format = Some ''png'' then Png q
          else if format = Some ''webp'' then Webp q
          else Jpeg q)"

definition resizeImage ::
  "('b, 'm) engine \<Rightarrow> request \<Rightarrow> 'b world \<Rightarrow> ('b, 'm) response \<times> 'b world" where
  "resizeImage eng req w =
     (case resize_params (r_query req) of
        Inl rejected \<Rightarrow> (rejected, w)
      | Inr (wd, ht, q) \<Rightarrow>
          (case find_image ''Only image files can be resized'' req w of
             Inl failed \<Rightarrow> (failed, w)
           | Inr file \<Rightarrow>
               cached_or_generate eng ''Image processing failed'' file
                 (resize_cacheFilename (path_parse_name (f_filename file)) wd ht q
                    (resize_ext (q_format (r_query req))))
                 (resize_job wd ht q (q_format (r_query req))) w))"

subsection \<open>convertImage\<close>

definition supportedFormats :: "string list" where
  "supportedFormats = [''jpeg'', ''jpg'', ''png'', ''webp'', ''gif'']"

definition convert_params :: "query \<Rightarrow> ('b, 'm) response + (string \<times> jsnum)" where
  "convert_params qu =
     (case q_format qu of
        None \<Rightarrow> Inl (Json 400 ''Missing format'' (Some ''Target format must be specified''))
      | Some format \<Rightarrow>
          if format = []
          then Inl (Json 400 ''Missing format'' (Some ''Target format must be specified''))
          else if toLowerCase format \<notin> set supportedFormats
          then Inl (Json 400 ''Unsupported format''
                      (Some ''Supported formats: jpeg, jpg, png, webp, gif''))
          else let q = parseInt_default 80 (q_quality qu)
               in if quality_rejected q then Inl invalid_quality else Inr (format, q))"

definition convert_job :: "string \<Rightarrow> jsnum \<Rightarrow> job" where
  "convert_job format q =
     Job NoGeometry
         (if toLowerCase format = ''png'' then Png q
          else if toLowerCase format = ''webp'' then Webp q
          else if toLowerCase format = ''gif'' then Gif
          else Jpeg q)"

definition convertImage ::
  "('b, 'm) engine \<Rightarrow> request \<Rightarrow> 'b world \<Rightarrow> ('b, 'm) response \<times> 'b world" where
  "convertImage eng req w =
     (case convert_params (r_query req) of
        Inl rejected \<Rightarrow> (rejected, w)
      | Inr (format, q) \<Rightarrow>
          (case find_image ''Only image files can be converted'' req w of
             Inl failed \<Rightarrow> (failed, w)
           | Inr file \<Rightarrow>
               cached_or_generate eng ''Image conversion failed'' file
                 (convert_cacheFilename (path_parse_name (f_filename file)) q format)
                 (convert_job format q) w))"

subsection \<open>generateThumbnail\<close>

definition thumbnail_params :: "query \<Rightarrow> ('b, 'm) response + (jsnum \<times> jsnum)" where
  "thumbnail_params qu =
     (let s = parseInt_default 300 (q_size qu);
          q = parseInt_default 80 (q_quality qu)
      in if js_lt s 50 \<or> js_gt s 1000
         then Inl (Json 400 ''Invalid size''
                     (Some ''Thumbnail size must be between 50 and 1000 pixels''))
         else if quality_rejected q then Inl invalid_quality
         else Inr (s, q))"

text \<open>
  Line 256: \<open>file.thumbnail_path && fs.existsSync(file.thumbnail_path) && s === 300\<close>,
  the default thumbnail written at upload is sent for the default size.
\<close>

definition default_thumbnail_applies :: "file_row \<Rightarrow> jsnum \<Rightarrow> 'b world \<Rightarrow> bool" where
  "default_thumbnail_applies file s w =
     (case f_thumbnail_path file of
        None \<Rightarrow> False
      | Some tp \<Rightarrow> tp \<noteq> [] \<and> existsSync w tp \<and> s = Num 300)"

definition thumbnail_job :: "jsnum \<Rightarrow> jsnum \<Rightarrow> job" where
  "thumbnail_job s q = Job (Resize (Some s) (Some s) Cover_center) (Jpeg q)"

definition generateThumbnail ::
  "('b, 'm) engine \<Rightarrow> request \<Rightarrow> 'b world \<Rightarrow> ('b, 'm) response \<times> 'b world" where
  "generateThumbnail eng req w =
     (case thumbnail_params (r_query req) of
        Inl rejected \<Rightarrow> (rejected, w)
      | Inr (s, q) \<Rightarrow>
          (case find_image ''Only image files can have thumbnails generated'' req w of
             Inl failed \<Rightarrow> (failed, w)
           | Inr file \<Rightarrow>
               if default_thumbnail_applies file s w
               then (sendFile w (the (f_thumbnail_path file)), w)
               else cached_or_generate eng ''Thumbnail generation failed'' file
                      (thumbnail_cacheFilename (path_parse_name (f_filename file)) s q)
                      (thumbnail_job s q) w))"

subsection \<open>getImageInfo\<close>

definition getImageInfo ::
  "('b, 'm) engine \<Rightarrow> request \<Rightarrow> 'b world \<Rightarrow> ('b, 'm) response \<times> 'b world" where
  "getImageInfo eng req w =
     (case find_image ''Only image files have detailed information'' req w of
        Inl failed \<Rightarrow> (failed, w)
      | Inr file \<Rightarrow>
          (let w1 = w\<lparr>sharp_calls := sharp_calls w @ [Probe (f_path file)]\<rparr>
           in case fs w (f_path file) of
                Some (File b) \<Rightarrow>
                  (case metadata eng b of
                     Inl msg \<Rightarrow> (Json 500 ''Unable to get image information'' (Some msg), w1)
                   | Inr info \<Rightarrow> (InfoJson file info, w1))
              | _ \<Rightarrow> (Json 500 ''Unable to get image information''
                         (Some ''Input file is missing or not a file''), w1)))"

subsection \<open>cropImage\<close>

definition crop_params ::
  "query \<Rightarrow> ('b, 'm) response + (jsnum \<times> jsnum \<times> jsnum \<times> jsnum \<times> jsnum)" where
  "crop_params qu =
     (if \<not> truthy_str (q_x qu) \<or> \<not> truthy_str (q_y qu)
         \<or> \<not> truthy_str (q_width qu) \<or> \<not> truthy_str (q_height qu)
      then Inl (Json 400 ''Missing parameters''
                  (Some ''x, y, width, and height must be specified for cropping''))
      else
        let cropX = parseInt_val (q_x qu);
            cropY = parseInt_val (q_y qu);
            cropWidth = parseInt_val (q_width qu);
            cropHeight = parseInt_val (q_height qu);
            q = parseInt_default 80 (q_quality qu)
        in if js_lt cropX 0 \<or> js_lt cropY 0 \<or> js_lt cropWidth 1 \<or> js_lt cropHeight 1
           then Inl (Json 400 ''Invalid crop parameters''
                       (Some ''Crop parameters must be positive numbers''))
           else if quality_rejected q then Inl invalid_quality
           else Inr (cropX, cropY, cropWidth, cropHeight, q))"

definition crop_job :: "jsnum \<Rightarrow> jsnum \<Rightarrow> jsnum \<Rightarrow> jsnum \<Rightarrow> jsnum \<Rightarrow> job" where
  "crop_job cropX cropY cropWidth cropHeight q =
     Job (Extract cropX cropY cropWidth cropHeight) (Jpeg q)"

definition cropImage ::
  "('b, 'm) engine \<Rightarrow> request \<Rightarrow> 'b world \<Rightarrow> ('b, 'm) response \<times> 'b world" where
  "cropImage eng req w =
     (case crop_params (r_query req) of
        Inl rejected \<Rightarrow> (rejected, w)
      | Inr (cropX, cropY, cropWidth, cropHeight, q) \<Rightarrow>
          (case find_image ''Only image files can be cropped'' req w of
             Inl failed \<Rightarrow> (failed, w)
           | Inr file \<Rightarrow>
               cached_or_generate eng ''Image cropping failed'' file
                 (crop_cacheFilename (path_parse_name (f_filename file))
                    cropX cropY cropWidth cropHeight q)
                 (crop_job cropX cropY cropWidth cropHeight q) w))"

subsection \<open>Routes (routes/process.js)\<close>

datatype operation = OpResize | OpConvert | OpThumbnail | OpCrop | OpInfo

fun process_route ::
  "('b, 'm) engine \<Rightarrow> operation \<Rightarrow> request \<Rightarrow> 'b world \<Rightarrow> ('b, 'm) response \<times> 'b world" where
  "process_route eng OpResize = resizeImage eng"
| "process_route eng OpConvert = convertImage eng"
| "process_route eng OpThumbnail = generateThumbnail eng"
| "process_route eng OpCrop = cropImage eng"
| "process_route eng OpInfo = getImageInfo eng"


section \<open>Deleting a file (controllers/fileController.js)\<close>

text \<open>
  The \<open>try\<close> block of \<open>deleteFile\<close>: unlink the original when it exists, then the
  thumbnail when it exists. An exception is logged and the rest of the block is skipped.
\<close>

definition delete_physical :: "file_row \<Rightarrow> 'b world \<Rightarrow> 'b world" where
  "delete_physical file w =
     (case (if f_path file \<noteq> [] \<and> existsSync w (f_path file)
            then unlinkSync (f_path file) w else Some w) of
        None \<Rightarrow> w
      | Some w1 \<Rightarrow>
          (case f_thumbnail_path file of
             None \<Rightarrow> w1
           | Some tp \<Rightarrow>
               if tp \<noteq> [] \<and> existsSync w1 tp
               then (case unlinkSync tp w1 of None \<Rightarrow> w1 | Some w2 \<Rightarrow> w2)
               else w1))"

definition deleteFile :: "request \<Rightarrow> 'b world \<Rightarrow> ('b, 'm) response \<times> 'b world" where
  "deleteFile req w =
     (case File_delete (db w) (r_id req) (r_user req) of
        (None, rows) \<Rightarrow> (Json 404 ''File not found'' None, w)
      | (Some (success, file), rows) \<Rightarrow>
          if \<not> success then (Json 404 ''File not found'' None, w\<lparr>db := rows\<rparr>)
          else (JsonOk ''File deleted successfully'', delete_physical file (w\<lparr>db := rows\<rparr>)))"

section \<open>The default thumbnail written at upload (controllers/uploadController.js)\<close>


section \<open>The image engine as the specification describes it\<close>

text \<open>
  Modelled from the spec: the Image Transform Engine (section 4.4), which the repository
  takes from the \<open>sharp\<close> library and which is not among its sources. An image is known
  by its decoded width and height and its format; a source that cannot be decoded is
  \<open>Corrupt\<close>. Resize fits the image inside the box of the given dimension(s), keeps the
  aspect ratio and never enlarges; the cover fit yields exactly the requested box; crop
  extracts the region without clamping and fails when it leaves the image; every
  operation re-encodes into the target format. Dimensions must be positive integers,
  offsets non-negative, and the quality an integer from 1 to 100.
\<close>

datatype image = Image nat nat string | Corrupt

definition round_div :: "nat \<Rightarrow> nat \<Rightarrow> nat" where
  "round_div a b = (2 * a + b) div (2 * b)"

text \<open>\<open>scaled len target full\<close>: \<open>len\<close> scaled by \<open>target / full\<close>, at least one pixel.\<close>

definition scaled :: "nat \<Rightarrow> nat \<Rightarrow> nat \<Rightarrow> nat" where
  "scaled len target full = max 1 (round_div (len * target) full)"

text \<open>
  Modelled from the spec: the shrink-to-fit resize of section 4.4, which sharp implements.
  The image is left alone when it already fits the given dimension(s); otherwise the
  binding dimension takes the requested value and the other one is scaled by the same
  ratio, rounded to the nearest whole pixel.
\<close>

fun fit_inside :: "nat option \<Rightarrow> nat option \<Rightarrow> nat \<Rightarrow> nat \<Rightarrow> nat \<times> nat" where
  "fit_inside None None W H = (W, H)"
| "fit_inside (Some w) None W H = (if W \<le> w then (W, H) else (w, scaled H w W))"
| "fit_inside None (Some h) W H = (if H \<le> h then (W, H) else (scaled W h H, h))"
| "fit_inside (Some w) (Some h) W H =
     (if W \<le> w \<and> H \<le> h then (W, H)
      else if w * H \<le> h * W then (w, scaled H w W)
      else (scaled W h H, h))"

definition positive :: "jsnum \<Rightarrow> nat option" where
  "positive a = (case a of NaN \<Rightarrow> None | Num x \<Rightarrow> if 1 \<le> x then Some (nat x) else None)"

definition non_negative :: "jsnum \<Rightarrow> nat option" where
  "non_negative a = (case a of NaN \<Rightarrow> None | Num x \<Rightarrow> if 0 \<le> x then Some (nat x) else None)"

text \<open>An optional dimension: absent, a positive integer, or refused.\<close>

definition dimension :: "jsnum option \<Rightarrow> nat option option" where
  "dimension d = (case d of None \<Rightarrow> Some None
                  | Some a \<Rightarrow> (case positive a of None \<Rightarrow> None | Some n \<Rightarrow> Some (Some n)))"

text \<open>The cover fit is only ever requested with both dimensions.\<close>

definition positive_dim :: "jsnum option \<Rightarrow> nat option" where
  "positive_dim d = (case d of None \<Rightarrow> None | Some a \<Rightarrow> positive a)"

text \<open>
  Modelled from the spec: the geometry step of section 4.4, which sharp implements:
  shrink-to-fit for resize, the exact box for the cover fit, and the unclamped region for
  crop, which fails when the region leaves the image.
\<close>

definition spec_geometry :: "geometry \<Rightarrow> nat \<Rightarrow> nat \<Rightarrow> string + nat \<times> nat" where
  "spec_geometry g W H =
     (case g of
        NoGeometry \<Rightarrow> Inr (W, H)
      | Resize w h Inside_withoutEnlargement \<Rightarrow>
          (case (dimension w, dimension h) of
             (Some bw, Some bh) \<Rightarrow> Inr (fit_inside bw bh W H)
           | _ \<Rightarrow> Inl ''Expected positive integer for dimension'')
      | Resize w h Cover_center \<Rightarrow>
          (case (positive_dim w, positive_dim h) of
             (Some bw, Some bh) \<Rightarrow> Inr (bw, bh)
           | _ \<Rightarrow> Inl ''Expected positive integer for dimension'')
      | Extract x y w h \<Rightarrow>
          (case (non_negative x, non_negative y, positive w, positive h) of
             (Some l, Some t, Some cw, Some ch) \<Rightarrow>
               if l + cw \<le> W \<and> t + ch \<le> H then Inr (cw, ch)
               else Inl ''extract_area: bad extract area''
           | _ \<Rightarrow> Inl ''Expected integer for extract parameter''))"

definition valid_quality :: "jsnum \<Rightarrow> bool" where
  "valid_quality q = (case q of NaN \<Rightarrow> False | Num x \<Rightarrow> 1 \<le> x \<and> x \<le> 100)"

text \<open>
  Modelled from the spec: the encoders of section 4.4, which sharp implements; gif takes
  no quality.
\<close>

definition spec_encoder :: "encoder \<Rightarrow> string + string" where
  "spec_encoder e =
     (case e of
        Jpeg q \<Rightarrow> if valid_quality q then Inr ''jpeg'' else Inl ''Expected integer between 1 and 100 for quality''
      | Png q \<Rightarrow> if valid_quality q then Inr ''png'' else Inl ''Expected integer between 1 and 100 for quality''
      | Webp q \<Rightarrow> if valid_quality q then Inr ''webp'' else Inl ''Expected integer between 1 and 100 for quality''
      | Gif \<Rightarrow> Inr ''gif'')"

text \<open>
  Modelled from the spec: decode, operate, encode (section 4.4), which sharp implements; a
  source that cannot be decoded is a processing failure.
\<close>

fun spec_run :: "job \<Rightarrow> image \<Rightarrow> string + image" where
  "spec_run (Job g e) Corrupt = Inl ''Input file contains unsupported image format''"
| "spec_run (Job g e) (Image W H f) =
     (case spec_encoder e of
        Inl msg \<Rightarrow> Inl msg
      | Inr fmt \<Rightarrow>
          (case spec_geometry g W H of
             Inl msg \<Rightarrow> Inl msg
           | Inr (W', H') \<Rightarrow> Inr (Image W' H' fmt)))"

fun spec_metadata :: "image \<Rightarrow> string + nat \<times> nat \<times> string" where
  "spec_metadata Corrupt = Inl ''Input file contains unsupported image format''"
| "spec_metadata (Image W H f) = Inr (W, H, f)"

definition spec_engine :: "(image, nat \<times> nat \<times> string) engine" where
  "spec_engine = \<lparr>run = spec_run, metadata = spec_metadata\<rparr>"



section \<open>Notions used to state the properties\<close>

text \<open>The response with which an operation's parameter validation rejects a query, if any.\<close>

definition rejected_by :: "('b, 'm) response + 'a \<Rightarrow> ('b, 'm) response option" where
  "rejected_by r = (case r of Inl resp \<Rightarrow> Some resp | Inr v \<Rightarrow> None)"

fun validation :: "operation \<Rightarrow> query \<Rightarrow> ('b, 'm) response option" where
  "validation OpResize qu = rejected_by (resize_params qu)"
| "validation OpConvert qu = rejected_by (convert_params qu)"
| "validation OpThumbnail qu = rejected_by (thumbnail_params qu)"
| "validation OpCrop qu = rejected_by (crop_params qu)"
| "validation OpInfo qu = None"

text \<open>
  A cache that only this pipeline has written: the cache directory, if there, is a
  directory, and the file under a key, if there, holds what the engine makes of the source
  for that key's job.
\<close>

definition cache_sound ::
  "('b, 'm) engine \<Rightarrow> file_row \<Rightarrow> string \<Rightarrow> job \<Rightarrow> 'b world \<Rightarrow> bool" where
  "cache_sound eng file cacheFilename j w =
     ((case fs w (cacheDir_of file) of None \<Rightarrow> True | Some Dir \<Rightarrow> True | Some (File b) \<Rightarrow> False)
      \<and> (case fs w (cachePath_of file cacheFilename) of
            None \<Rightarrow> True
          | Some Dir \<Rightarrow> False
          | Some (File b) \<Rightarrow>
              (case fs w (f_path file) of
                 Some (File src) \<Rightarrow> run eng j src = Inr b
               | _ \<Rightarrow> False)))"

text \<open>
  A thumbnail path as upload writes it: a sibling of the original (the original's path with
  its extension replaced by \<open>_thumb.jpg\<close>), so neither the original nor a directory named
  \<open>cache\<close>.
\<close>

definition sibling_thumbnail :: "file_row \<Rightarrow> path \<Rightarrow> bool" where
  "sibling_thumbnail file tp =
     (tp \<noteq> [] \<and> path_dirname tp = path_dirname (f_path file)
      \<and> tp \<noteq> f_path file \<and> last tp \<noteq> ''cache'')"

definition thumbnails_as_uploaded :: "file_row list \<Rightarrow> bool" where
  "thumbnails_as_uploaded rows =
     list_all (\<lambda>r. case f_thumbnail_path r of None \<Rightarrow> True | Some tp \<Rightarrow> sibling_thumbnail r tp) rows"


text \<open>The world once a handler has made sure that the asset's cache directory exists.\<close>

definition prep :: "file_row \<Rightarrow> 'b world \<Rightarrow> 'b world" where
  "prep file w = (if \<not> existsSync w (cacheDir_of file) then mkdirSync (cacheDir_of file) w else w)"




subsection \<open>A small installation\<close>

text \<open>
  User 7 has uploaded a 600 by 300 png, stored as \<open>uploads/7/a1.png\<close>, and a video. In
  \<open>fresh_world\<close> nothing else is on disk; \<open>uploaded_world\<close> also holds the default
  thumbnail that upload writes.
\<close>

definition a1_row :: file_row where
  "a1_row = \<lparr>f_id = 1, f_user_id = 7, f_filename = ''a1.png'',
             f_path = [''uploads'', ''7'', ''a1.png''], f_file_type = ''image'',
             f_thumbnail_path = Some [''uploads'', ''7'', ''a1_thumb.jpg'']\<rparr>"

definition v2_row :: file_row where
  "v2_row = \<lparr>f_id = 2, f_user_id = 7, f_filename = ''v2.mp4'',
             f_path = [''uploads'', ''7'', ''v2.mp4''], f_file_type = ''video'',
             f_thumbnail_path = None\<rparr>"

definition a1_source :: image where
  "a1_source = Image 600 300 ''png''"

definition fresh_world :: "image world" where
  "fresh_world =
     \<lparr>db = [a1_row, v2_row],
      fs = [[''uploads'', ''7''] \<mapsto> Dir,
            [''uploads'', ''7'', ''a1.png''] \<mapsto> File a1_source,
            [''uploads'', ''7'', ''v2.mp4''] \<mapsto> File Corrupt],
      sharp_calls = []\<rparr>"

definition uploaded_world :: "image world" where
  "uploaded_world =
     fresh_world\<lparr>fs := (fs fresh_world)
        ([''uploads'', ''7'', ''a1_thumb.jpg''] \<mapsto> File (Image 300 150 ''jpeg''))\<rparr>"

definition no_query :: query where
  "no_query = \<lparr>q_width = None, q_height = None, q_quality = None, q_format = None,
               q_size = None, q_x = None, q_y = None\<rparr>"

definition request_for :: "nat \<Rightarrow> query \<Rightarrow> request" where
  "request_for i qu = \<lparr>r_id = i, r_user = 7, r_query = qu\<rparr>"

text \<open>Requests of user 7: \<open>resize/1?width=200&height=200\<close> and \<open>thumbnail/1\<close>.\<close>

definition resize_200 :: request where
  "resize_200 = request_for 1 (no_query\<lparr>q_width := Some ''200'', q_height := Some ''200''\<rparr>)"

definition thumbnail_default :: request where
  "thumbnail_default = request_for 1 no_query"

text \<open>\<open>thumbnail/1?size=100\<close>\<close>

definition thumbnail_100 :: request where
  "thumbnail_100 = request_for 1 (no_query\<lparr>q_size := Some ''100''\<rparr>)"


definition resize_zero :: request where
  "resize_zero = request_for 1 (no_query\<lparr>q_width := Some ''0''\<rparr>)"

definition crop_beyond :: request where
  "crop_beyond = request_for 1 (no_query\<lparr>q_x := Some ''500'', q_y := Some ''0'',
                                  q_width := Some ''200'', q_height := Some ''100''\<rparr>)"


definition crop_video :: request where
  "crop_video = request_for 2 (no_query\<lparr>q_x := Some ''0'', q_y := Some ''0'',
                                 q_width := Some ''10'', q_height := Some ''10''\<rparr>)"

definition delete_a1 :: request where
  "delete_a1 = request_for 1 no_query"

text \<open>The uploaded installation after \<open>thumbnail/1?size=100\<close> has been served once.\<close>

definition cached_world :: "image world" where
  "cached_world = snd (generateThumbnail spec_engine thumbnail_100 uploaded_world)"

section \<open>Properties of the cache key\<close>




lemma digits_nonempty: "digits n \<noteq> []"
  by (subst digits.simps) simp



lemma show_num_nonempty: "show_num a \<noteq> []"
  by (simp add: show_num_def digits_nonempty split: jsnum.splits)





lemma show_dim_nonempty: "show_dim w \<noteq> []"
  by (simp add: show_dim_def show_num_nonempty split: option.splits)














section \<open>The cache block and the handlers\<close>

lemma cachePath_ne_path: "cachePath_of file n \<noteq> f_path file"
proof
  assume "cachePath_of file n = f_path file"
  then have "length (cachePath_of file n) = length (f_path file)" by simp
  then show False by (simp add: cachePath_of_def cacheDir_of_def path_join_def path_dirname_def)
qed

lemma cachePath_ne_cacheDir: "cachePath_of file n \<noteq> cacheDir_of file"
  by (simp add: cachePath_of_def path_join_def)

lemma dirname_cachePath: "path_dirname (cachePath_of file n) = cacheDir_of file"
  by (simp add: cachePath_of_def path_join_def path_dirname_def)

lemma prep_simps:
  "db (prep file w) = db w" "sharp_calls (prep file w) = sharp_calls w"
  "fs (prep file w) (cachePath_of file n) = fs w (cachePath_of file n)"
  "fs (prep file w) (cacheDir_of file) = (case fs w (cacheDir_of file) of None \<Rightarrow> Some Dir | Some x \<Rightarrow> Some x)"
  "p \<noteq> cacheDir_of file \<Longrightarrow> fs (prep file w) p = fs w p"
  by (auto simp: prep_def mkdirSync_def existsSync_def cachePath_ne_cacheDir split: option.splits)

lemma prep_idem: "prep file (prep file w) = prep file w"
  by (simp add: prep_def mkdirSync_def existsSync_def)

lemma cog_unfold:
  "cached_or_generate eng label file n j w =
     (if fs (prep file w) (cachePath_of file n) \<noteq> None
      then (sendFile (prep file w) (cachePath_of file n), prep file w)
      else case toFile eng j (f_path file) (cachePath_of file n) (prep file w) of
             (Inl msg, w2) \<Rightarrow> (Json 500 label (Some msg), w2)
           | (Inr u, w2) \<Rightarrow> (sendFile w2 (cachePath_of file n), w2))"
  by (simp only: cached_or_generate_def prep_def Let_def existsSync_def)

lemma cog_hit:
  "fs w (cachePath_of file n) = Some (File b) \<Longrightarrow>
   cached_or_generate eng label file n j w = (SendFile (cachePath_of file n) b, prep file w)"
  by (simp add: cog_unfold prep_simps sendFile_def)

lemma cog_dir:
  "fs w (cachePath_of file n) = Some Dir \<Longrightarrow>
   cached_or_generate eng label file n j w = (SendError (cachePath_of file n), prep file w)"
  by (simp add: cog_unfold prep_simps sendFile_def)

lemma cog_miss:
  "fs w (cachePath_of file n) = None \<Longrightarrow>
   cached_or_generate eng label file n j w =
     (case toFile eng j (f_path file) (cachePath_of file n) (prep file w) of
        (Inl msg, w2) \<Rightarrow> (Json 500 label (Some msg), w2)
      | (Inr u, w2) \<Rightarrow> (sendFile w2 (cachePath_of file n), w2))"
  by (simp add: cog_unfold prep_simps)



lemma toFile_db: "db (snd (toFile eng j src out w)) = db w"
  by (simp add: toFile_def Let_def split: option.splits node.splits sum.splits)

lemma toFile_Inr:
  "toFile eng j src out w = (Inr u, w2) \<Longrightarrow>
   \<exists>b res. fs w src = Some (File b) \<and> run eng j b = Inr res \<and> fs w (path_dirname out) = Some Dir
     \<and> w2 = w\<lparr>sharp_calls := sharp_calls w @ [Encode src j], fs := (fs w)(out \<mapsto> File res)\<rparr>"
  by (auto simp: toFile_def Let_def split: option.splits node.splits sum.splits if_splits)

lemma toFile_Inl:
  "toFile eng j src out w = (Inl msg, w2) \<Longrightarrow>
   w2 = w\<lparr>sharp_calls := sharp_calls w @ [Encode src j]\<rparr>"
  by (auto simp: toFile_def Let_def split: option.splits node.splits sum.splits if_splits)

lemma prep_fixed: "fs w (cacheDir_of file) \<noteq> None \<Longrightarrow> prep file w = w"
  by (simp add: prep_def existsSync_def)

lemma cog_success:
  assumes "cached_or_generate eng label file n j w = (SendFile p b, w1)"
  shows "p = cachePath_of file n \<and> fs w1 p = Some (File b) \<and> db w1 = db w
         \<and> (\<forall>q. q \<noteq> cachePath_of file n \<longrightarrow> q \<noteq> cacheDir_of file \<longrightarrow> fs w1 q = fs w q)
         \<and> fs w1 (cacheDir_of file) \<noteq> None
         \<and> (fs w (cacheDir_of file) \<noteq> None \<longrightarrow> fs w1 (cacheDir_of file) = fs w (cacheDir_of file))
         \<and> (if fs w p \<noteq> None then sharp_calls w1 = sharp_calls w
             else sharp_calls w1 = sharp_calls w @ [Encode (f_path file) j])"
proof (cases "fs w (cachePath_of file n)")
  case None
  obtain r w2 where tf: "toFile eng j (f_path file) (cachePath_of file n) (prep file w) = (r, w2)"
    by (cases "toFile eng j (f_path file) (cachePath_of file n) (prep file w)")
  show ?thesis
  proof (cases r)
    case (Inl msg)
    with assms None tf show ?thesis by (simp add: cog_miss)
  next
    case (Inr u)
    from toFile_Inr [OF tf [unfolded Inr]] obtain src res where
      src: "fs (prep file w) (f_path file) = Some (File src)" and
      res: "run eng j src = Inr res" and
      dir: "fs (prep file w) (cacheDir_of file) = Some Dir" and
      w2: "w2 = (prep file w)\<lparr>sharp_calls := sharp_calls (prep file w) @ [Encode (f_path file) j],
                 fs := (fs (prep file w))(cachePath_of file n \<mapsto> File res)\<rparr>"
      by (auto simp: dirname_cachePath)
    from assms None tf Inr w2 have pb: "p = cachePath_of file n" "b = res" "w1 = w2"
      by (auto simp: cog_miss sendFile_def)
    show ?thesis using None dir
      by (simp add: pb w2 prep_simps cachePath_ne_cacheDir cachePath_ne_cacheDir [symmetric]
            split: option.splits)
  qed
next
  case (Some nd)
  show ?thesis
  proof (cases nd)
    case (File b')
    with Some assms have "p = cachePath_of file n" "b = b'" "w1 = prep file w"
      by (simp_all add: cog_hit)
    with Some File show ?thesis
      by (simp add: prep_simps split: option.splits)
  next
    case Dir
    with Some assms show ?thesis by (simp add: cog_dir)
  qed
qed

lemma cog_again:
  assumes "cached_or_generate eng label file n j w = (SendFile p b, w1)"
  shows "cached_or_generate eng label file n j w1 = (SendFile p b, w1)"
proof -
  from cog_success [OF assms] have p: "p = cachePath_of file n" and "fs w1 p = Some (File b)"
    and d: "fs w1 (cacheDir_of file) \<noteq> None" by blast+
  then have "fs w1 (cachePath_of file n) = Some (File b)" by simp
  from cog_hit [OF this] d p show ?thesis by (simp add: prep_fixed)
qed

lemma cog_keeps_source:
  assumes "cached_or_generate eng label file n j w = (SendFile p b, w1)"
    and "fs w (f_path file) \<noteq> None"
  shows "fs w1 (f_path file) \<noteq> None"
proof (cases "f_path file = cacheDir_of file")
  case True
  with cog_success [OF assms(1)] show ?thesis by simp
next
  case False
  with cog_success [OF assms(1)] cachePath_ne_path assms(2) show ?thesis
    by metis
qed

lemma find_image_Inr:
  "find_image m req w = Inr file \<longleftrightarrow>
     findById (db w) (r_id req) (r_user req) = Some file \<and> f_file_type file = ''image''
     \<and> fs w (f_path file) \<noteq> None"
  by (auto simp: find_image_def existsSync_def split: option.splits)

lemma find_image_stable:
  "find_image m req w = Inr file \<Longrightarrow> db w1 = db w \<Longrightarrow> fs w1 (f_path file) \<noteq> None \<Longrightarrow>
   find_image m' req w1 = Inr file"
  by (simp add: find_image_Inr)

lemma findById_mem: "findById rows i u = Some file \<Longrightarrow> file \<in> set rows"
  by (auto simp: findById_def find_Some_iff)

lemma params_reject_Json:
  "resize_params qu = Inl r \<Longrightarrow> \<exists>e m. r = Json 400 e m"
  "convert_params qu = Inl r \<Longrightarrow> \<exists>e m. r = Json 400 e m"
  "thumbnail_params qu = Inl r \<Longrightarrow> \<exists>e m. r = Json 400 e m"
  "crop_params qu = Inl r \<Longrightarrow> \<exists>e m. r = Json 400 e m"
  by (auto simp: resize_params_def convert_params_def thumbnail_params_def crop_params_def Let_def
        split: if_splits option.splits)

lemma find_image_Inl:
  "find_image m req w = Inl r \<Longrightarrow> r = Json 404 ''File not found'' None
     \<or> r = Json 400 ''Invalid file type'' (Some m) \<or> r = Json 404 ''Physical file not found'' None"
  by (auto simp: find_image_def split: if_splits option.splits)

text \<open>A handler that validates, finds the image and then runs the cache block.\<close>

lemma via_cog_twice:
  fixes eng :: "('b, 'm) engine"
  assumes fi: "(find_image m req w :: ('b, 'm) response + file_row) = Inr file"
    and cg: "cached_or_generate eng label file n j w = (SendFile p b, w1)"
  shows "(find_image m req w1 :: ('b, 'm) response + file_row) = Inr file"
    and "cached_or_generate eng label file n j w1 = (SendFile p b, w1)"
    and "if existsSync w p then sharp_calls w1 = sharp_calls w
         else length (sharp_calls w1) = length (sharp_calls w) + 1"
proof -
  from fi have src: "fs w (f_path file) \<noteq> None" by (simp add: find_image_Inr)
  from cog_success [OF cg] have "db w1 = db w" by simp
  with fi cog_keeps_source [OF cg src] show "(find_image m req w1 :: ('b, 'm) response + file_row) = Inr file"
    by (simp add: find_image_Inr)
  show "cached_or_generate eng label file n j w1 = (SendFile p b, w1)" by (rule cog_again [OF cg])
  from cog_success [OF cg]
  show "if existsSync w p then sharp_calls w1 = sharp_calls w
        else length (sharp_calls w1) = length (sharp_calls w) + 1"
    by (auto simp: existsSync_def split: if_splits)
qed

lemma resizeImage_twice:
  fixes eng :: "('b, 'm) engine"
  assumes "resizeImage eng req w = (SendFile p b, w1)"
  shows "resizeImage eng req w1 = (SendFile p b, w1) \<and>
         (if existsSync w p then sharp_calls w1 = sharp_calls w
          else length (sharp_calls w1) = length (sharp_calls w) + 1)"
proof (cases "resize_params (r_query req) :: ('b, 'm) response + _")
  case (Inl r)
  with assms params_reject_Json(1) [OF Inl] show ?thesis by (auto simp: resizeImage_def)
next
  case (Inr v)
  obtain wd ht q where v: "v = (wd, ht, q)" by (cases v)
  show ?thesis
  proof (cases "find_image ''Only image files can be resized'' req w :: ('b, 'm) response + _")
    case (Inl r)
    with assms Inr v find_image_Inl [OF Inl] show ?thesis by (auto simp: resizeImage_def)
  next
    case fi: (Inr fl)
    from assms Inr v fi have cg: "cached_or_generate eng ''Image processing failed'' fl
                 (resize_cacheFilename (path_parse_name (f_filename fl)) wd ht q
                    (resize_ext (q_format (r_query req))))
                 (resize_job wd ht q (q_format (r_query req))) w = (SendFile p b, w1)"
      by (simp add: resizeImage_def)
    from via_cog_twice [OF fi cg] Inr v show ?thesis by (simp add: resizeImage_def)
  qed
qed

lemma convertImage_twice:
  fixes eng :: "('b, 'm) engine"
  assumes "convertImage eng req w = (SendFile p b, w1)"
  shows "convertImage eng req w1 = (SendFile p b, w1) \<and>
         (if existsSync w p then sharp_calls w1 = sharp_calls w
          else length (sharp_calls w1) = length (sharp_calls w) + 1)"
proof (cases "convert_params (r_query req) :: ('b, 'm) response + _")
  case (Inl r)
  with assms params_reject_Json(2) [OF Inl] show ?thesis by (auto simp: convertImage_def)
next
  case (Inr v)
  obtain format q where v: "v = (format, q)" by (cases v)
  show ?thesis
  proof (cases "find_image ''Only image files can be converted'' req w :: ('b, 'm) response + _")
    case (Inl r)
    with assms Inr v find_image_Inl [OF Inl] show ?thesis by (auto simp: convertImage_def)
  next
    case fi: (Inr fl)
    from assms Inr v fi have cg: "cached_or_generate eng ''Image conversion failed'' fl
                 (convert_cacheFilename (path_parse_name (f_filename fl)) q format)
                 (convert_job format q) w = (SendFile p b, w1)"
      by (simp add: convertImage_def)
    from via_cog_twice [OF fi cg] Inr v show ?thesis by (simp add: convertImage_def)
  qed
qed

lemma cropImage_twice:
  fixes eng :: "('b, 'm) engine"
  assumes "cropImage eng req w = (SendFile p b, w1)"
  shows "cropImage eng req w1 = (SendFile p b, w1) \<and>
         (if existsSync w p then sharp_calls w1 = sharp_calls w
          else length (sharp_calls w1) = length (sharp_calls w) + 1)"
proof (cases "crop_params (r_query req) :: ('b, 'm) response + _")
  case (Inl r)
  with assms params_reject_Json(4) [OF Inl] show ?thesis by (auto simp: cropImage_def)
next
  case (Inr v)
  obtain x y cw ch q where v: "v = (x, y, cw, ch, q)" by (cases v)
  show ?thesis
  proof (cases "find_image ''Only image files can be cropped'' req w :: ('b, 'm) response + _")
    case (Inl r)
    with assms Inr v find_image_Inl [OF Inl] show ?thesis by (auto simp: cropImage_def)
  next
    case fi: (Inr fl)
    from assms Inr v fi have cg: "cached_or_generate eng ''Image cropping failed'' fl
                 (crop_cacheFilename (path_parse_name (f_filename fl)) x y cw ch q)
                 (crop_job x y cw ch q) w = (SendFile p b, w1)"
      by (simp add: cropImage_def)
    from via_cog_twice [OF fi cg] Inr v show ?thesis by (simp add: cropImage_def)
  qed
qed

lemma sibling_not_cacheDir: "sibling_thumbnail file tp \<Longrightarrow> tp \<noteq> cacheDir_of file"
  by (auto simp: sibling_thumbnail_def cacheDir_of_def path_join_def)

lemma sibling_not_cachePath: "sibling_thumbnail file tp \<Longrightarrow> tp \<noteq> cachePath_of file n"
proof
  assume s: "sibling_thumbnail file tp" and e: "tp = cachePath_of file n"
  from s have "butlast tp = butlast (f_path file)" by (simp add: sibling_thumbnail_def path_dirname_def)
  then have "length (butlast tp) = length (butlast (f_path file))" by simp
  with e show False by (simp add: cachePath_of_def cacheDir_of_def path_join_def path_dirname_def)
qed

lemma as_uploaded:
  "thumbnails_as_uploaded rows \<Longrightarrow> file \<in> set rows \<Longrightarrow> f_thumbnail_path file = Some tp \<Longrightarrow>
   sibling_thumbnail file tp"
  by (auto simp: thumbnails_as_uploaded_def list_all_iff split: option.splits)

lemma generateThumbnail_twice:
  fixes eng :: "('b, 'm) engine"
  assumes up: "thumbnails_as_uploaded (db w)"
    and "generateThumbnail eng req w = (SendFile p b, w1)"
  shows "generateThumbnail eng req w1 = (SendFile p b, w1) \<and>
         (if existsSync w p then sharp_calls w1 = sharp_calls w
          else length (sharp_calls w1) = length (sharp_calls w) + 1)"
proof (cases "thumbnail_params (r_query req) :: ('b, 'm) response + _")
  case (Inl r)
  with assms(2) params_reject_Json(3) [OF Inl] show ?thesis by (auto simp: generateThumbnail_def)
next
  case (Inr v)
  obtain s q where v: "v = (s, q)" by (cases v)
  show ?thesis
  proof (cases "find_image ''Only image files can have thumbnails generated'' req w :: ('b, 'm) response + _")
    case (Inl r)
    with assms Inr v find_image_Inl [OF Inl] show ?thesis by (auto simp: generateThumbnail_def)
  next
    case fi: (Inr fl)
    show ?thesis
    proof (cases "default_thumbnail_applies fl s w")
      case True
      with assms(2) Inr v fi
      have e: "(sendFile w (the (f_thumbnail_path fl)) :: ('b, 'm) response) = SendFile p b"
        and w1: "w1 = w"
        by (auto simp: generateThumbnail_def)
      from e have ex: "fs w p \<noteq> None"
        by (auto simp: sendFile_def split: option.splits node.splits)
      show ?thesis unfolding w1 using Inr v fi True e ex
        by (simp add: generateThumbnail_def existsSync_def)
    next
      case False
      with assms(2) Inr v fi have cg: "cached_or_generate eng ''Thumbnail generation failed'' fl
                      (thumbnail_cacheFilename (path_parse_name (f_filename fl)) s q)
                      (thumbnail_job s q) w = (SendFile p b, w1)"
        by (simp add: generateThumbnail_def)
      note tw = via_cog_twice [OF fi cg]
      have "\<not> default_thumbnail_applies fl s w1"
      proof (cases "f_thumbnail_path fl")
        case None then show ?thesis by (simp add: default_thumbnail_applies_def)
      next
        case (Some tp)
        from fi have "fl \<in> set (db w)" by (auto simp: find_image_Inr dest: findById_mem)
        from as_uploaded [OF up this Some] have sib: "sibling_thumbnail fl tp" .
        from cog_success [OF cg]
        have "\<forall>pth. pth \<noteq> cachePath_of fl (thumbnail_cacheFilename (path_parse_name (f_filename fl)) s q)
                \<longrightarrow> pth \<noteq> cacheDir_of fl \<longrightarrow> fs w1 pth = fs w pth" by blast
        with sibling_not_cacheDir [OF sib] sibling_not_cachePath [OF sib]
        have "fs w1 tp = fs w tp" by simp
        with False Some show ?thesis by (simp add: default_thumbnail_applies_def existsSync_def)
      qed
      with tw Inr v show ?thesis by (simp add: generateThumbnail_def)
    qed
  qed
qed

lemma getImageInfo_no_file:
  fixes eng :: "('b, 'm) engine"
  shows "getImageInfo eng req w \<noteq> (SendFile p b, w1)"
proof (cases "find_image ''Only image files have detailed information'' req w :: ('b, 'm) response + file_row")
  case (Inl r)
  with find_image_Inl [OF Inl] show ?thesis by (auto simp: getImageInfo_def)
next
  case (Inr fl)
  then show ?thesis
    by (simp add: getImageInfo_def Let_def split: sum.splits option.splits node.splits)
qed

section \<open>Evaluating the model on the sample installation\<close>

lemmas parse_defs = parseInt_def parseInt_default_def parseInt_val_def parse_opt_def is_ws_def
  is_digit_in_def digit_val_def digits_value_def

lemmas show_defs = show_num_def show_dim_def digits.simps digit_char_def truthy_num_def

lemmas param_defs = resize_params_def convert_params_def thumbnail_params_def crop_params_def
  truthy_str_def dim_rejected_def truthy_dim_def quality_rejected_def js_lt_def js_gt_def
  toLowerCase_def lower_char_def supportedFormats_def resize_ext_def

lemmas key_defs = resize_cacheFilename_def convert_cacheFilename_def thumbnail_cacheFilename_def
  crop_cacheFilename_def path_parse_name_def last_dot_def

lemmas fs_defs = find_image_def findById_def existsSync_def mkdirSync_def toFile_def sendFile_def
  cached_or_generate_def cacheDir_of_def cachePath_of_def path_join_def path_dirname_def
  default_thumbnail_applies_def unlinkSync_def

lemmas job_defs = resize_job_def convert_job_def thumbnail_job_def crop_job_def

lemmas engine_defs = spec_engine_def spec_encoder_def spec_geometry_def valid_quality_def
  dimension_def positive_dim_def positive_def non_negative_def scaled_def round_div_def

lemmas sample_defs = fresh_world_def uploaded_world_def a1_row_def v2_row_def a1_source_def
  no_query_def request_for_def

lemmas eval_all = param_defs key_defs fs_defs job_defs engine_defs sample_defs parse_defs show_defs Let_def

section \<open>What a response depends on\<close>







section \<open>A sound cache and the engine of the specification\<close>


lemma cog_sound_fail:
  assumes cs: "cache_sound eng file n j w"
    and src: "fs w (f_path file) = Some (File b)"
    and run: "run eng j b = Inl msg"
  shows "fst (cached_or_generate eng label file n j w) = Json 500 label (Some msg)"
proof -
  from cs src run have None: "fs w (cachePath_of file n) = None"
    by (auto simp: cache_sound_def split: option.splits node.splits)
  from cs src have ne: "f_path file \<noteq> cacheDir_of file"
    by (auto simp: cache_sound_def split: option.splits node.splits)
  from src ne have s': "fs (prep file w) (f_path file) = Some (File b)" by (simp add: prep_simps)
  with run have "fst (toFile eng j (f_path file) (cachePath_of file n) (prep file w)) = Inl msg"
    by (simp add: toFile_def Let_def)
  then obtain w2 where "toFile eng j (f_path file) (cachePath_of file n) (prep file w) = (Inl msg, w2)"
    by (cases "toFile eng j (f_path file) (cachePath_of file n) (prep file w)") simp
  with None show ?thesis by (simp add: cog_miss)
qed





lemma scaled_pos: "1 \<le> scaled len target full"
  by (simp add: scaled_def)








lemma find_image_found:
  "findById (db w) (r_id req) (r_user req) = Some file \<Longrightarrow> f_file_type file = ''image'' \<Longrightarrow>
   fs w (f_path file) = Some nd \<Longrightarrow> find_image m req w = Inr file"
  by (simp add: find_image_def existsSync_def)








lemma spec_run_crop_outside:
  assumes "0 \<le> x" "0 \<le> y" "1 \<le> cw" "1 \<le> ch" "valid_quality (Num Q)"
    and "int W < x + cw \<or> int H < y + ch"
  shows "spec_run (crop_job (Num x) (Num y) (Num cw) (Num ch) (Num Q)) (Image W H f)
           = Inl ''extract_area: bad extract area''"
  using assms
  by (auto simp: crop_job_def spec_encoder_def spec_geometry_def positive_def non_negative_def)

lemma parseInt_empty: "parseInt [] = NaN"
  by (simp add: parseInt_def)

lemma parseInt_val_truthy: "parseInt_val v = Num x \<Longrightarrow> truthy_str v"
  by (cases v) (auto simp: parseInt_val_def truthy_str_def parseInt_empty)

section \<open>Parameters that parse to NaN\<close>







lemma quality_default_accepted: "\<not> quality_rejected (parseInt_default 80 None)"
  by (simp add: quality_rejected_def parseInt_default_def js_lt_def js_gt_def)











text \<open>
  Outside the falsy values, the range checks of \<open>resizeImage\<close> reject as their messages
  say, before anything is looked up: a non-zero width or height outside 1 to 4096, and a
  numeric quality outside 1 to 100.
\<close>

lemma resize_rejects_out_of_range:
  fixes eng :: "('b, 'm) engine"
  assumes "truthy_str (q_width (r_query req)) \<or> truthy_str (q_height (r_query req))"
    and "parse_opt (q_width (r_query req)) = Some (Num n) \<or> parse_opt (q_height (r_query req)) = Some (Num n)"
    and "n \<noteq> 0" "n < 1 \<or> 4096 < n"
  shows "resizeImage eng req w
           = (Json 400 ''Invalid dimensions''
                (Some ''Width and height must be between 1 and 4096 pixels''), w)"
  using assms
  by (auto simp: resizeImage_def resize_params_def Let_def dim_rejected_def truthy_num_def
        js_lt_def js_gt_def)

lemma resize_rejects_quality:
  fixes eng :: "('b, 'm) engine"
  assumes "truthy_str (q_width (r_query req)) \<or> truthy_str (q_height (r_query req))"
    and "\<not> dim_rejected (parse_opt (q_width (r_query req)))"
    and "\<not> dim_rejected (parse_opt (q_height (r_query req)))"
    and "parseInt_default 80 (q_quality (r_query req)) = Num q" "q < 1 \<or> 100 < q"
  shows "resizeImage eng req w = (invalid_quality, w)"
  using assms
  by (auto simp: resizeImage_def resize_params_def Let_def quality_rejected_def js_lt_def js_gt_def)

lemma resize_boundaries:
  "dim_rejected (parse_opt (Some ''4097''))" "\<not> dim_rejected (parse_opt (Some ''4096''))"
  "\<not> dim_rejected (parse_opt (Some ''1''))" "\<not> dim_rejected (parse_opt (Some ''0''))"
  "quality_rejected (parseInt_default 80 (Some ''0''))"
  "\<not> quality_rejected (parseInt_default 80 (Some ''100''))"
  "quality_rejected (parseInt_default 80 (Some ''101''))"
  by (simp_all add: dim_rejected_def quality_rejected_def js_lt_def js_gt_def truthy_num_def
        parseInt_default_def parse_opt_def parseInt_def is_ws_def is_digit_in_def digit_val_def
        digits_value_def)

section \<open>Deleting a file\<close>

lemma unlinkSync_frame:
  "unlinkSync p w = Some w' \<Longrightarrow>
     (\<forall>q. q \<noteq> p \<longrightarrow> fs w' q = fs w q) \<and> fs w' p = None \<and> db w' = db w
     \<and> sharp_calls w' = sharp_calls w"
  by (auto simp: unlinkSync_def split: option.splits node.splits)

lemma delete_physical_frame:
  "sharp_calls (delete_physical file w) = sharp_calls w"
  "db (delete_physical file w) = db w"
  "q \<noteq> f_path file \<Longrightarrow> Some q \<noteq> f_thumbnail_path file \<Longrightarrow> fs (delete_physical file w) q = fs w q"
  by (auto simp: delete_physical_def dest!: unlinkSync_frame split: option.splits if_splits)

lemma File_delete_Some:
  "File_delete rows i u = (Some (s, file), rows') \<Longrightarrow>
     file \<in> set rows \<and> f_id file = i \<and> f_user_id file = u
     \<and> rows' = filter (\<lambda>r. \<not> (f_id r = i \<and> f_user_id r = u)) rows"
  by (auto simp: File_delete_def Let_def find_Some_iff split: option.splits)

lemma deleteFile_ok:
  fixes w :: "'b world"
  assumes "deleteFile req w = (JsonOk m :: ('b, 'm) response, w')"
  shows "\<exists>file s rows'. File_delete (db w) (r_id req) (r_user req) = (Some (s, file), rows')
           \<and> w' = delete_physical file (w\<lparr>db := rows'\<rparr>)"
  using assms
  by (auto simp: deleteFile_def split: prod.splits option.splits if_splits)

lemma deleted_asset_not_found:
  fixes w :: "'b world"
  assumes "deleteFile req w = (JsonOk m :: ('b, 'm) response, w')" "r_user req \<noteq> 0"
  shows "findById (db w') (r_id req) (r_user req) = None"
proof -
  from deleteFile_ok [OF assms(1)] obtain fl s rows' where
    fd: "File_delete (db w) (r_id req) (r_user req) = (Some (s, fl), rows')"
    and w': "w' = delete_physical fl (w\<lparr>db := rows'\<rparr>)" by blast
  from File_delete_Some [OF fd] have "rows' = filter (\<lambda>r. \<not> (f_id r = r_id req \<and> f_user_id r = r_user req)) (db w)"
    by simp
  with assms(2) show ?thesis unfolding w'
    by (auto simp: delete_physical_frame findById_def find_None_iff)
qed

section \<open>Claims\<close>

text \<open>
  C1 (cache idempotence of derive), as the claim states it, fails: a thumbnail request of
  the default size on a freshly uploaded image, whose cache directory does not even exist,
  succeeds twice without any engine invocation, because the default thumbnail written at
  upload is sent instead (line 256). The claim asks for exactly one.
\<close>

theorem default_thumbnail_served_without_engine:
  "\<not> existsSync uploaded_world [''uploads'', ''7'', ''cache'']
   \<and> fst (generateThumbnail spec_engine thumbnail_default uploaded_world)
       = SendFile [''uploads'', ''7'', ''a1_thumb.jpg''] (Image 300 150 ''jpeg'')
   \<and> fst (generateThumbnail spec_engine thumbnail_default
            (snd (generateThumbnail spec_engine thumbnail_default uploaded_world)))
       = SendFile [''uploads'', ''7'', ''a1_thumb.jpg''] (Image 300 150 ''jpeg'')
   \<and> length (sharp_calls (snd (generateThumbnail spec_engine thumbnail_default
            (snd (generateThumbnail spec_engine thumbnail_default uploaded_world)))))
       \<noteq> length (sharp_calls uploaded_world) + 1"
  by (simp add: generateThumbnail_def thumbnail_default_def eval_all)

text \<open>
  C1, amended. Whenever a resize, convert, thumbnail or crop request succeeds, the same
  request made again returns the same path and the same bytes and leaves the world as it
  is, so it invokes no engine. The first call invokes the engine exactly once when the
  file it serves was not on disk before, and not at all when it was (a cache hit, or the
  default thumbnail standing in for a size-300 thumbnail). Thumbnail paths are taken to be
  as upload writes them.
\<close>

theorem derive_twice:
  assumes "thumbnails_as_uploaded (db w)"
    and "process_route eng op req w = (SendFile p b, w1)"
  shows "process_route eng op req w1 = (SendFile p b, w1) \<and>
         (if existsSync w p then sharp_calls w1 = sharp_calls w
          else length (sharp_calls w1) = length (sharp_calls w) + 1)"
proof (cases op)
  case OpResize with assms(2) show ?thesis using resizeImage_twice [of eng req w p b w1] by simp
next
  case OpConvert with assms(2) show ?thesis using convertImage_twice [of eng req w p b w1] by simp
next
  case OpThumbnail with assms show ?thesis using generateThumbnail_twice [of w eng req p b w1] by simp
next
  case OpCrop with assms(2) show ?thesis using cropImage_twice [of eng req w p b w1] by simp
next
  case OpInfo with assms(2) show ?thesis using getImageInfo_no_file [of eng req w p b w1] by simp
qed

theorem derive_twice_witness:
  "thumbnails_as_uploaded (db fresh_world)
   \<and> process_route spec_engine OpResize resize_200 fresh_world
       = (SendFile [''uploads'', ''7'', ''cache'', ''a1_200x200_q80.jpeg''] (Image 200 100 ''jpeg''),
          snd (process_route spec_engine OpResize resize_200 fresh_world))
   \<and> process_route spec_engine OpResize resize_200
         (snd (process_route spec_engine OpResize resize_200 fresh_world))
       = (SendFile [''uploads'', ''7'', ''cache'', ''a1_200x200_q80.jpeg''] (Image 200 100 ''jpeg''),
          snd (process_route spec_engine OpResize resize_200 fresh_world))
   \<and> \<not> existsSync fresh_world [''uploads'', ''7'', ''cache'', ''a1_200x200_q80.jpeg'']
   \<and> length (sharp_calls (snd (process_route spec_engine OpResize resize_200 fresh_world)))
       = length (sharp_calls fresh_world) + 1"
proof -
  have a: "thumbnails_as_uploaded (db fresh_world)"
    by (simp add: thumbnails_as_uploaded_def sibling_thumbnail_def eval_all)
  have "fst (process_route spec_engine OpResize resize_200 fresh_world)
        = SendFile [''uploads'', ''7'', ''cache'', ''a1_200x200_q80.jpeg''] (Image 200 100 ''jpeg'')"
    by (simp add: resizeImage_def resize_200_def eval_all)
  then have b: "process_route spec_engine OpResize resize_200 fresh_world
       = (SendFile [''uploads'', ''7'', ''cache'', ''a1_200x200_q80.jpeg''] (Image 200 100 ''jpeg''),
          snd (process_route spec_engine OpResize resize_200 fresh_world))"
    by (simp add: prod_eq_iff)
  have c: "\<not> existsSync fresh_world [''uploads'', ''7'', ''cache'', ''a1_200x200_q80.jpeg'']"
    by (simp add: eval_all)
  from derive_twice [OF a b] a b c show ?thesis by (simp only: if_False simp_thms)
qed











text \<open>
  C5 (resize parameter validation): the code does not do what the claim says at width 0.
  \<open>parseInt('0')\<close> is \<open>0\<close>, which is falsy, so the guard \<open>w && (w < 1 || w > 4096)\<close>
  skips the range test: the request passes validation, and with no height it is served
  (the unresized source, cached as \<open>autoxauto\<close>) where the claim asks for the 400.
\<close>

theorem resize_width_zero_passes_validation:
  "(resize_params (r_query resize_zero) :: (image, nat \<times> nat \<times> string) response + _)
     = Inr (Some (Num 0), None, Num 80)
   \<and> fst (resizeImage spec_engine resize_zero fresh_world)
     = SendFile [''uploads'', ''7'', ''cache'', ''a1_autoxauto_q80.jpeg''] (Image 600 300 ''jpeg'')"
  by (simp add: resizeImage_def resize_zero_def eval_all)



text \<open>
  C7 (crop failure split). Crop parameters with x, y at least 0 and width, height at least
  1 are never rejected as invalid crop parameters, and with a valid quality they pass
  validation, which does not look at the source. With the engine as the specification
  describes it, on a resolved image source whose cache only this pipeline has written, a
  region that extends beyond the decoded source then makes the handler answer 500
  \<open>Image cropping failed\<close> with the engine's message, not a 400.
\<close>

theorem crop_outside_source_fails_in_engine:
  assumes x: "parseInt_val (q_x qu) = Num x" "0 \<le> x"
    and y: "parseInt_val (q_y qu) = Num y" "0 \<le> y"
    and cw: "parseInt_val (q_width qu) = Num cw" "1 \<le> cw"
    and ch: "parseInt_val (q_height qu) = Num ch" "1 \<le> ch"
  shows "(crop_params qu :: (image, nat \<times> nat \<times> string) response + _)
           \<noteq> Inl (Json 400 ''Invalid crop parameters''
                    (Some ''Crop parameters must be positive numbers''))
       \<and> (parseInt_default 80 (q_quality qu) = Num Q \<longrightarrow> 1 \<le> Q \<longrightarrow> Q \<le> 100 \<longrightarrow>
          (crop_params qu :: (image, nat \<times> nat \<times> string) response + _)
             = Inr (Num x, Num y, Num cw, Num ch, Num Q)
          \<and> (r_query req = qu \<longrightarrow> findById (db w) (r_id req) (r_user req) = Some file \<longrightarrow>
             f_file_type file = ''image'' \<longrightarrow> fs w (f_path file) = Some (File (Image W H fmt)) \<longrightarrow>
             cache_sound spec_engine file
               (crop_cacheFilename (path_parse_name (f_filename file)) (Num x) (Num y) (Num cw) (Num ch) (Num Q))
               (crop_job (Num x) (Num y) (Num cw) (Num ch) (Num Q)) w \<longrightarrow>
             int W < x + cw \<or> int H < y + ch \<longrightarrow>
             fst (cropImage spec_engine req w)
               = Json 500 ''Image cropping failed'' (Some ''extract_area: bad extract area'')))"
proof (intro conjI impI)
  note tr = parseInt_val_truthy [OF x(1)] parseInt_val_truthy [OF y(1)]
      parseInt_val_truthy [OF cw(1)] parseInt_val_truthy [OF ch(1)]
  show "(crop_params qu :: (image, nat \<times> nat \<times> string) response + _)
           \<noteq> Inl (Json 400 ''Invalid crop parameters''
                    (Some ''Crop parameters must be positive numbers''))"
    using assms tr by (simp add: crop_params_def Let_def js_lt_def)
  assume q: "parseInt_default 80 (q_quality qu) = Num Q" "1 \<le> Q" "Q \<le> 100"
  show p: "(crop_params qu :: (image, nat \<times> nat \<times> string) response + _)
           = Inr (Num x, Num y, Num cw, Num ch, Num Q)"
    using assms q tr
    by (simp add: crop_params_def Let_def js_lt_def js_gt_def quality_rejected_def)
  have vq: "valid_quality (Num Q)" using q by (simp add: valid_quality_def)
  assume rq: "r_query req = qu" and f: "findById (db w) (r_id req) (r_user req) = Some file"
    and t: "f_file_type file = ''image''" and src: "fs w (f_path file) = Some (File (Image W H fmt))"
    and cs: "cache_sound spec_engine file
          (crop_cacheFilename (path_parse_name (f_filename file)) (Num x) (Num y) (Num cw) (Num ch) (Num Q))
          (crop_job (Num x) (Num y) (Num cw) (Num ch) (Num Q)) w"
    and out: "int W < x + cw \<or> int H < y + ch"
  have fi: "(find_image ''Only image files can be cropped'' req w
            :: (image, nat \<times> nat \<times> string) response + _) = Inr file"
    by (rule find_image_found [OF f t src])
  have "run spec_engine (crop_job (Num x) (Num y) (Num cw) (Num ch) (Num Q)) (Image W H fmt)
          = Inl ''extract_area: bad extract area''"
    using spec_run_crop_outside [OF x(2) y(2) cw(2) ch(2) vq out] by (simp add: spec_engine_def)
  from cog_sound_fail [OF cs src this] p fi rq
  show "fst (cropImage spec_engine req w)
          = Json 500 ''Image cropping failed'' (Some ''extract_area: bad extract area'')"
    by (simp add: cropImage_def)
qed

theorem crop_outside_source_fails_in_engine_witness:
  "parseInt_val (q_x (r_query crop_beyond)) = Num 500
   \<and> parseInt_val (q_width (r_query crop_beyond)) = Num 200
   \<and> fs fresh_world (f_path a1_row) = Some (File (Image 600 300 ''png''))
   \<and> (crop_params (r_query crop_beyond) :: (image, nat \<times> nat \<times> string) response + _)
       = Inr (Num 500, Num 0, Num 200, Num 100, Num 80)
   \<and> fst (cropImage spec_engine crop_beyond fresh_world)
       = Json 500 ''Image cropping failed'' (Some ''extract_area: bad extract area'')"
proof -
  have x: "parseInt_val (q_x (r_query crop_beyond)) = Num 500"
    and y: "parseInt_val (q_y (r_query crop_beyond)) = Num 0"
    and cw: "parseInt_val (q_width (r_query crop_beyond)) = Num 200"
    and ch: "parseInt_val (q_height (r_query crop_beyond)) = Num 100"
    and q: "parseInt_default 80 (q_quality (r_query crop_beyond)) = Num 80"
    by (simp_all add: crop_beyond_def eval_all)
  have f: "findById (db fresh_world) (r_id crop_beyond) (r_user crop_beyond) = Some a1_row"
    by (simp add: crop_beyond_def eval_all)
  have t: "f_file_type a1_row = ''image''" by (simp add: a1_row_def)
  have src: "fs fresh_world (f_path a1_row) = Some (File (Image 600 300 ''png''))"
    by (simp add: eval_all)
  have cs: "cache_sound spec_engine a1_row
              (crop_cacheFilename (path_parse_name (f_filename a1_row)) (Num 500) (Num 0)
                 (Num 200) (Num 100) (Num 80))
              (crop_job (Num 500) (Num 0) (Num 200) (Num 100) (Num 80)) fresh_world"
    by (simp add: cache_sound_def eval_all)
  from crop_outside_source_fails_in_engine [OF x _ y _ cw _ ch, of 80 crop_beyond fresh_world
         a1_row 600 300 "''png''"] q f t src cs
  have "(crop_params (r_query crop_beyond) :: (image, nat \<times> nat \<times> string) response + _)
          = Inr (Num 500, Num 0, Num 200, Num 100, Num 80)
      \<and> fst (cropImage spec_engine crop_beyond fresh_world)
          = Json 500 ''Image cropping failed'' (Some ''extract_area: bad extract area'')"
    by simp
  with x cw src show ?thesis by simp
qed

text \<open>
  C8 (deletion leaves the cache untouched). A successful \<open>deleteFile\<close> changes the disk
  at most at the deleted row's original path and its thumbnail path: every other path
  keeps its content. With thumbnail paths as upload writes them, every file of the asset's
  cache directory is unchanged and is sent as before, and the directory itself is
  unchanged; no engine is invoked.
\<close>

theorem delete_leaves_cache_untouched:
  fixes w :: "'b world"
  assumes "deleteFile req w = (JsonOk m :: ('b, 'm) response, w')"
  shows "\<exists>file \<in> set (db w). f_id file = r_id req \<and> f_user_id file = r_user req
          \<and> (\<forall>p. p \<noteq> f_path file \<longrightarrow> Some p \<noteq> f_thumbnail_path file \<longrightarrow> fs w' p = fs w p)
          \<and> (thumbnails_as_uploaded (db w) \<longrightarrow>
               (\<forall>name. fs w' (cachePath_of file name) = fs w (cachePath_of file name)
                       \<and> (sendFile w' (cachePath_of file name) :: ('b, 'm) response)
                           = sendFile w (cachePath_of file name))
               \<and> (cacheDir_of file \<noteq> f_path file \<longrightarrow>
                    fs w' (cacheDir_of file) = fs w (cacheDir_of file)))
          \<and> sharp_calls w' = sharp_calls w"
proof -
  from deleteFile_ok [OF assms] obtain fl s rows' where
    fd: "File_delete (db w) (r_id req) (r_user req) = (Some (s, fl), rows')"
    and w': "w' = delete_physical fl (w\<lparr>db := rows'\<rparr>)" by blast
  from File_delete_Some [OF fd] have mem: "fl \<in> set (db w)" "f_id fl = r_id req"
    "f_user_id fl = r_user req" by simp_all
  have frame: "\<And>p. p \<noteq> f_path fl \<Longrightarrow> Some p \<noteq> f_thumbnail_path fl \<Longrightarrow> fs w' p = fs w p"
    unfolding w' by (simp add: delete_physical_frame)
  have calls: "sharp_calls w' = sharp_calls w" unfolding w' by (simp add: delete_physical_frame)
  have cache: "(\<forall>name. fs w' (cachePath_of fl name) = fs w (cachePath_of fl name)
                       \<and> (sendFile w' (cachePath_of fl name) :: ('b, 'm) response)
                           = sendFile w (cachePath_of fl name))
               \<and> (cacheDir_of fl \<noteq> f_path fl \<longrightarrow> fs w' (cacheDir_of fl) = fs w (cacheDir_of fl))"
    if up: "thumbnails_as_uploaded (db w)"
  proof -
    have a: "Some (cachePath_of fl name) \<noteq> f_thumbnail_path fl" for name
      using as_uploaded [OF up mem(1)] sibling_not_cachePath by (cases "f_thumbnail_path fl") auto
    have b: "Some (cacheDir_of fl) \<noteq> f_thumbnail_path fl"
      using as_uploaded [OF up mem(1)] sibling_not_cacheDir by (cases "f_thumbnail_path fl") auto
    from a b frame cachePath_ne_path show ?thesis by (simp add: sendFile_def)
  qed
  from mem frame cache calls show ?thesis by blast
qed

theorem delete_leaves_cache_untouched_witness:
  "deleteFile delete_a1 cached_world
     = (JsonOk ''File deleted successfully'' :: (image, nat \<times> nat \<times> string) response,
        snd (deleteFile delete_a1 cached_world :: (image, nat \<times> nat \<times> string) response \<times> image world))
   \<and> fs cached_world [''uploads'', ''7'', ''a1.png''] = Some (File (Image 600 300 ''png''))
   \<and> fs (snd (deleteFile delete_a1 cached_world :: (image, nat \<times> nat \<times> string) response \<times> image world))
        [''uploads'', ''7'', ''a1.png''] = None
   \<and> fs (snd (deleteFile delete_a1 cached_world :: (image, nat \<times> nat \<times> string) response \<times> image world))
        [''uploads'', ''7'', ''cache'', ''a1_thumb_100x100_q80.jpg'']
       = Some (File (Image 100 100 ''jpeg''))"
proof -
  let ?w' = "snd (deleteFile delete_a1 cached_world :: (image, nat \<times> nat \<times> string) response \<times> image world)"
  have cw: "cached_world = uploaded_world
              \<lparr>fs := (fs uploaded_world)
                 ([''uploads'', ''7'', ''cache''] \<mapsto> Dir,
                  [''uploads'', ''7'', ''cache'', ''a1_thumb_100x100_q80.jpg'']
                    \<mapsto> File (Image 100 100 ''jpeg'')),
               sharp_calls := [Encode [''uploads'', ''7'', ''a1.png'']
                                 (thumbnail_job (Num 100) (Num 80))]\<rparr>"
    by (simp add: cached_world_def generateThumbnail_def thumbnail_100_def eval_all)
  have "fst (deleteFile delete_a1 cached_world :: (image, nat \<times> nat \<times> string) response \<times> image world)
          = JsonOk ''File deleted successfully''"
    by (simp add: cw deleteFile_def File_delete_def delete_a1_def eval_all)
  then have b: "deleteFile delete_a1 cached_world
     = (JsonOk ''File deleted successfully'' :: (image, nat \<times> nat \<times> string) response, ?w')"
    by (simp add: prod_eq_iff)
  have up: "thumbnails_as_uploaded (db cached_world)"
    by (simp add: cw thumbnails_as_uploaded_def sibling_thumbnail_def eval_all)
  from delete_leaves_cache_untouched [OF b] up
  obtain fl where fl: "fl \<in> set (db cached_world)" "f_id fl = r_id delete_a1"
    and keep: "\<forall>name. fs ?w' (cachePath_of fl name) = fs cached_world (cachePath_of fl name)"
    by blast
  from fl have "fl = a1_row" by (auto simp: cw delete_a1_def eval_all)
  with keep have "fs ?w' (cachePath_of a1_row ''a1_thumb_100x100_q80.jpg'')
                  = fs cached_world (cachePath_of a1_row ''a1_thumb_100x100_q80.jpg'')"
    by blast
  then have k: "fs ?w' [''uploads'', ''7'', ''cache'', ''a1_thumb_100x100_q80.jpg'']
                 = Some (File (Image 100 100 ''jpeg''))"
    by (simp add: cw eval_all)
  have s: "fs cached_world [''uploads'', ''7'', ''a1.png''] = Some (File (Image 600 300 ''png''))"
    by (simp add: cw eval_all)
  have g: "fs ?w' [''uploads'', ''7'', ''a1.png''] = None"
    by (simp add: cw deleteFile_def File_delete_def delete_physical_def delete_a1_def eval_all)
  from b s g k show ?thesis by simp
qed



text \<open>
  C10 (non-image assets rejected before any work). For each of resize, convert,
  thumbnail, crop and info, when the owner-scoped lookup finds a row whose file type is not
  \<open>image\<close>, a request that passes the operation's parameter validation is answered with
  400 \<open>Invalid file type\<close> (one that does not is answered with the validation's own
  rejection, before the lookup), and the world is returned as the handler got it: whatever
  is or is not on disk, no file is created or changed and no engine is invoked.
\<close>

theorem non_image_rejected_before_any_work:
  fixes eng :: "('b, 'm) engine"
  assumes f: "findById (db w) (r_id req) (r_user req) = Some file"
    and t: "f_file_type file \<noteq> ''image''"
  shows "(case (validation op (r_query req) :: ('b, 'm) response option) of
            None \<Rightarrow> \<exists>m. process_route eng op req w = (Json 400 ''Invalid file type'' (Some m), w)
          | Some rejected \<Rightarrow> process_route eng op req w = (rejected, w))"
proof -
  have fi: "\<And>m. (find_image m req w :: ('b, 'm) response + file_row)
              = Inl (Json 400 ''Invalid file type'' (Some m))"
    using f t by (simp add: find_image_def)
  show ?thesis
  proof (cases op)
    case OpResize
    then show ?thesis
      by (auto simp: resizeImage_def fi rejected_by_def split: sum.splits)
  next
    case OpConvert
    then show ?thesis
      by (auto simp: convertImage_def fi rejected_by_def split: sum.splits)
  next
    case OpThumbnail
    then show ?thesis
      by (auto simp: generateThumbnail_def fi rejected_by_def split: sum.splits)
  next
    case OpCrop
    then show ?thesis
      by (auto simp: cropImage_def fi rejected_by_def split: sum.splits)
  next
    case OpInfo
    then show ?thesis by (simp add: getImageInfo_def fi)
  qed
qed

theorem non_image_rejected_before_any_work_witness:
  "(validation OpCrop (r_query crop_video) :: (image, nat \<times> nat \<times> string) response option) = None
   \<and> findById (db fresh_world) (r_id crop_video) (r_user crop_video) = Some v2_row
   \<and> f_file_type v2_row \<noteq> ''image''
   \<and> (\<exists>m. process_route spec_engine OpCrop crop_video fresh_world
            = (Json 400 ''Invalid file type'' (Some m), fresh_world))"
proof -
  have v: "(validation OpCrop (r_query crop_video) :: (image, nat \<times> nat \<times> string) response option) = None"
    by (simp add: crop_video_def rejected_by_def eval_all)
  have f: "findById (db fresh_world) (r_id crop_video) (r_user crop_video) = Some v2_row"
    by (simp add: crop_video_def eval_all)
  have t: "f_file_type v2_row \<noteq> ''image''" by (simp add: v2_row_def)
  from non_image_rejected_before_any_work [OF f t, where op = OpCrop and eng = spec_engine] v f t show ?thesis by simp
qed

end
